theory Spec2Isabelle
  imports Main "HOL-Library.Word"
begin

section \<open>Machine integers and run-time panics\<close>

text \<open>
  Bytes are 8-bit words.  Go's \<open>uint32\<close> values are natural numbers below \<open>2 ^ 32\<close>;
  the three arithmetic operations that the page code performs on them wrap around
  and are written out here.  A page number (\<open>uid\<close>) is a natural number.
\<close>

type_synonym byte = "8 word"

definition add32 :: "nat \<Rightarrow> nat \<Rightarrow> nat" where
  "add32 a b = (a + b) mod 2 ^ 32"

definition sub32 :: "nat \<Rightarrow> nat \<Rightarrow> nat" where
  "sub32 a b = nat ((int a - int b) mod 2 ^ 32)"

definition mul32 :: "nat \<Rightarrow> nat \<Rightarrow> nat" where
  "mul32 a b = (a * b) mod 2 ^ 32"

text \<open>
  A Go panic ends the operation.  Three kinds occur: the explicit
  \<open>panic("offset is too big")\<close> of \<open>SetKeyOffset\<close>, the run-time panic of an index or
  a slice bound that is out of range, and the dereference of a nil latch.
\<close>

datatype panic = OffsetTooBig | OutOfRange | NilDeref

definition bindR :: "panic + 'a \<Rightarrow> ('a \<Rightarrow> panic + 'b) \<Rightarrow> panic + 'b" where
  "bindR m f = (case m of Inl e \<Rightarrow> Inl e | Inr x \<Rightarrow> f x)"

datatype BLTErr =
  BLTErrOk | BLTErrStruct | BLTErrOverflow | BLTErrLock | BLTErrMap
  | BLTErrRead | BLTErrWrite | BLTErrAtomic

section \<open>Constants\<close>

definition MaxKey :: nat where "MaxKey = 255"
definition PageHeaderSize :: nat where "PageHeaderSize = 26"
definition SlotSize :: nat where "SlotSize = 6"
definition BtId :: nat where "BtId = 6"
definition BtMaxBits :: nat where "BtMaxBits = 24"
definition BtMinBits :: nat where "BtMinBits = 9"
definition MinLvl :: nat where "MinLvl = 2"
definition RootPage :: nat where "RootPage = 1"

text \<open>Slot types, stored in one byte of the slot.\<close>

definition Unique :: byte where "Unique = 0"
definition Librarian :: byte where "Librarian = 1"
definition Duplicate :: byte where "Duplicate = 2"
definition Delete :: byte where "Delete = 3"

lemmas consts_defs =
  MaxKey_def PageHeaderSize_def SlotSize_def BtId_def BtMaxBits_def BtMinBits_def
  MinLvl_def RootPage_def Unique_def Librarian_def Duplicate_def Delete_def

section \<open>Pages\<close>

text \<open>
  \<open>Page\<close> is the header followed by the data area: the slot array grows up from
  index 0 of \<open>Data\<close>, the key and value bytes grow down from its end.  The header
  field \<open>Min\<close> of the source is called \<open>MinOff\<close> here.
\<close>

record Page =
  Cnt :: nat
  Act :: nat
  MinOff :: nat
  Garbage :: nat
  Bits :: nat
  Free :: bool
  Lvl :: nat
  Kill :: bool
  Right :: "byte list"
  Data :: "byte list"

definition NewPage :: "nat \<Rightarrow> Page" where
  "NewPage pageDataSize =
     \<lparr>Cnt = 0, Act = 0, MinOff = 0, Garbage = 0, Bits = 0, Free = False, Lvl = 0,
      Kill = False, Right = [0, 0, 0, 0, 0, 0], Data = replicate pageDataSize 0\<rparr>"

subsection \<open>Page numbers in six bytes\<close>

definition PutID :: "nat \<Rightarrow> byte list" where
  "PutID n =
     [of_nat (n div 1099511627776), of_nat (n div 4294967296), of_nat (n div 16777216),
      of_nat (n div 65536), of_nat (n div 256), of_nat n]"

definition GetID :: "byte list \<Rightarrow> nat" where
  "GetID src = foldl (\<lambda>n b. n * 256 + unat b) 0 src"

definition GetIDFromValue :: "byte list \<Rightarrow> nat" where
  "GetIDFromValue src = (if length src < BtId then 0 else GetID (take BtId src))"

subsection \<open>Key comparison\<close>

text \<open>\<open>bytes.Compare\<close>: lexicographic on unsigned bytes, a proper prefix is smaller.\<close>

fun KeyCmp :: "byte list \<Rightarrow> byte list \<Rightarrow> int" where
  "KeyCmp [] [] = 0"
| "KeyCmp [] (b # bs) = - 1"
| "KeyCmp (a # as) [] = 1"
| "KeyCmp (a # as) (b # bs) =
     (if a < b then - 1 else if b < a then 1 else KeyCmp as bs)"

subsection \<open>Slots\<close>

text \<open>
  \<open>slotBytes\<close> slices \<open>Data[off : off + SlotSize]\<close> with \<open>off = SlotSize * (i - 1)\<close>
  computed in \<open>uint32\<close>; the slice panics unless \<open>off \<le> off + SlotSize \<le> len(Data)\<close>.
\<close>

definition slot_off :: "nat \<Rightarrow> nat" where
  "slot_off i = mul32 SlotSize (sub32 i 1)"

definition slot_ok :: "Page \<Rightarrow> nat \<Rightarrow> bool" where
  "slot_ok p i \<longleftrightarrow>
     slot_off i \<le> add32 (slot_off i) SlotSize \<and> add32 (slot_off i) SlotSize \<le> length (Data p)"

definition slotBytes :: "Page \<Rightarrow> nat \<Rightarrow> panic + byte list" where
  "slotBytes p i =
     (if slot_ok p i then Inr (take SlotSize (drop (slot_off i) (Data p))) else Inl OutOfRange)"

text \<open>Writing through the slice returned by \<open>slotBytes\<close>.\<close>

definition put_slot :: "Page \<Rightarrow> nat \<Rightarrow> byte list \<Rightarrow> Page" where
  "put_slot p i sb =
     p\<lparr>Data := take (slot_off i) (Data p) @ sb @ drop (slot_off i + SlotSize) (Data p)\<rparr>"

definition le32_enc :: "nat \<Rightarrow> byte list" where
  "le32_enc n = [of_nat n, of_nat (n div 256), of_nat (n div 65536), of_nat (n div 16777216)]"

definition le32_dec :: "byte list \<Rightarrow> nat" where
  "le32_dec bs = foldr (\<lambda>b acc. unat b + 256 * acc) bs 0"

definition ClearSlot :: "Page \<Rightarrow> nat \<Rightarrow> panic + Page" where
  "ClearSlot p slot = bindR (slotBytes p slot) (\<lambda>sb. Inr (put_slot p slot (replicate SlotSize 0)))"

definition SetKeyOffset :: "Page \<Rightarrow> nat \<Rightarrow> nat \<Rightarrow> panic + Page" where
  "SetKeyOffset p slot offset =
     (if offset > 32767 then Inl OffsetTooBig
      else bindR (slotBytes p slot) (\<lambda>sb. Inr (put_slot p slot (le32_enc offset @ drop 4 sb))))"

definition KeyOffset :: "Page \<Rightarrow> nat \<Rightarrow> panic + nat" where
  "KeyOffset p slot = bindR (slotBytes p slot) (\<lambda>sb. Inr (le32_dec (take 4 sb)))"

definition SetTyp :: "Page \<Rightarrow> nat \<Rightarrow> byte \<Rightarrow> panic + Page" where
  "SetTyp p slot typ = bindR (slotBytes p slot) (\<lambda>sb. Inr (put_slot p slot (sb[4 := typ])))"

definition Typ :: "Page \<Rightarrow> nat \<Rightarrow> panic + byte" where
  "Typ p slot = bindR (slotBytes p slot) (\<lambda>sb. Inr (sb ! 4))"

definition SetDead :: "Page \<Rightarrow> nat \<Rightarrow> bool \<Rightarrow> panic + Page" where
  "SetDead p slot b =
     bindR (slotBytes p slot) (\<lambda>sb. Inr (put_slot p slot (sb[5 := (if b then 1 else 0)])))"

definition Dead :: "Page \<Rightarrow> nat \<Rightarrow> panic + bool" where
  "Dead p slot = bindR (slotBytes p slot) (\<lambda>sb. Inr (sb ! 5 = 1))"

subsection \<open>Keys and values in the heap\<close>

text \<open>
  \<open>copy(d[off:], bs)\<close>: the slice expression panics when \<open>off > len(d)\<close>; the copy
  itself writes as many bytes as fit.
\<close>

definition copy_to :: "byte list \<Rightarrow> nat \<Rightarrow> byte list \<Rightarrow> panic + byte list" where
  "copy_to d off bs =
     (if off \<le> length d
      then let n = min (length bs) (length d - off)
           in Inr (take off d @ take n bs @ drop (off + n) d)
      else Inl OutOfRange)"

text \<open>\<open>d[off]\<close> and \<open>d[lo : hi]\<close> with their bounds checks.\<close>

definition byte_at :: "byte list \<Rightarrow> nat \<Rightarrow> panic + byte" where
  "byte_at d off = (if off < length d then Inr (d ! off) else Inl OutOfRange)"

definition slice :: "byte list \<Rightarrow> nat \<Rightarrow> nat \<Rightarrow> panic + byte list" where
  "slice d lo hi =
     (if lo \<le> hi \<and> hi \<le> length d then Inr (take (hi - lo) (drop lo d)) else Inl OutOfRange)"

definition SetKey :: "Page \<Rightarrow> byte list \<Rightarrow> nat \<Rightarrow> panic + Page" where
  "SetKey p bytes slot =
     bindR (KeyOffset p slot) (\<lambda>off.
     bindR (copy_to (Data p) off (of_nat (length bytes) # bytes)) (\<lambda>d.
     Inr (p\<lparr>Data := d\<rparr>)))"

definition Key :: "Page \<Rightarrow> nat \<Rightarrow> panic + byte list" where
  "Key p slot =
     bindR (KeyOffset p slot) (\<lambda>off.
     bindR (byte_at (Data p) off) (\<lambda>keyLen.
     slice (Data p) (off + 1) (off + 1 + unat keyLen)))"

text \<open>
  In \<open>ValueOffset\<close> the sum \<open>1 + keyLen\<close> is formed in \<open>uint8\<close> before it is widened,
  so it wraps for a key of 255 bytes.
\<close>

definition ValueOffset :: "Page \<Rightarrow> nat \<Rightarrow> panic + nat" where
  "ValueOffset p slot =
     bindR (KeyOffset p slot) (\<lambda>off.
     bindR (byte_at (Data p) off) (\<lambda>keyLen.
     Inr (add32 off (unat (1 + keyLen)))))"

definition SetValue :: "Page \<Rightarrow> byte list \<Rightarrow> nat \<Rightarrow> panic + Page" where
  "SetValue p bytes slot =
     bindR (ValueOffset p slot) (\<lambda>off.
     bindR (copy_to (Data p) off (of_nat (length bytes) # bytes)) (\<lambda>d.
     Inr (p\<lparr>Data := d\<rparr>)))"

definition Value :: "Page \<Rightarrow> nat \<Rightarrow> panic + byte list" where
  "Value p slot =
     bindR (ValueOffset p slot) (\<lambda>off.
     bindR (byte_at (Data p) off) (\<lambda>valLen.
     slice (Data p) (off + 1) (off + 1 + unat valLen)))"

text \<open>\<open>MemCpyPage\<close> copies the header and as many data bytes as the destination holds.\<close>

definition MemCpyPage :: "Page \<Rightarrow> Page \<Rightarrow> Page" where
  "MemCpyPage dest src =
     src\<lparr>Data := take (length (Data dest)) (Data src)
                  @ drop (length (Data src)) (Data dest)\<rparr>"

subsection \<open>FindSlot\<close>

lemma sub32_lt: "sub32 a b < 2 ^ 32"
proof -
  have "(int a - int b) mod 2 ^ 32 < 2 ^ 32" by simp
  moreover have "0 \<le> (int a - int b) mod 2 ^ 32" by simp
  ultimately have "nat ((int a - int b) mod 2 ^ 32) < nat (2 ^ 32)"
    by (simp only: nat_less_eq_zless)
  then show ?thesis unfolding sub32_def by simp
qed

lemma sub32_int: "int (sub32 a b) = (int a - int b) mod 2 ^ 32"
  unfolding sub32_def by simp

lemma add32_int: "int (add32 a b) = (int a + int b) mod 2 ^ 32"
  unfolding add32_def by (simp add: of_nat_mod)

lemma sub32_half: "sub32 (add32 l (sub32 h l div 2)) l = sub32 h l div 2"
proof -
  let ?d = "sub32 h l"
  have dlt: "?d < 2 ^ 32" by (rule sub32_lt)
  have "int (sub32 (add32 l (?d div 2)) l)
        = ((int l + int (?d div 2)) mod 2 ^ 32 - int l) mod 2 ^ 32"
    by (simp add: sub32_int add32_int)
  also have "\<dots> = (int l + int (?d div 2) - int l) mod 2 ^ 32"
    by (simp add: mod_diff_left_eq)
  also have "\<dots> = int (?d div 2)"
    using dlt by simp
  finally show ?thesis by (simp only: of_nat_eq_iff)
qed

lemma sub32_upper:
  assumes d: "0 < sub32 h l"
  shows "sub32 h (add32 (add32 l (sub32 h l div 2)) 1) = sub32 h l - sub32 h l div 2 - 1"
proof -
  let ?d = "sub32 h l"
  have dlt: "?d < 2 ^ 32" by (rule sub32_lt)
  have half: "?d div 2 < ?d" using d by simp
  have "int (sub32 h (add32 (add32 l (?d div 2)) 1))
        = (int h - ((int l + int (?d div 2)) mod 2 ^ 32 + 1) mod 2 ^ 32) mod 2 ^ 32"
    by (simp add: sub32_int add32_int)
  also have "\<dots> = (int h - (int l + int (?d div 2) + 1)) mod 2 ^ 32"
    by (simp add: mod_diff_right_eq mod_add_left_eq)
  also have "\<dots> = ((int h - int l) mod 2 ^ 32 - (int (?d div 2) + 1)) mod 2 ^ 32"
    by (simp add: mod_diff_left_eq algebra_simps)
  also have "\<dots> = (int ?d - (int (?d div 2) + 1)) mod 2 ^ 32"
    by (simp add: sub32_int)
  also have "\<dots> = int ?d - (int (?d div 2) + 1)"
  proof (rule mod_pos_pos_trivial)
    show "0 \<le> int ?d - (int (?d div 2) + 1)" using half by linarith
    have "int ?d < 2 ^ 32" using dlt by (metis of_nat_less_iff of_nat_numeral of_nat_power)
    then show "int ?d - (int (?d div 2) + 1) < 2 ^ 32" by linarith
  qed
  also have "\<dots> = int (?d - ?d div 2 - 1)" using half by linarith
  finally show ?thesis by (simp only: of_nat_eq_iff)
qed

text \<open>
  The binary search of \<open>FindSlot\<close>.  \<open>low\<close> is the lowest candidate, \<open>higher\<close> is
  already known to be \<open>\<ge>\<close> the key, \<open>good\<close> counts the successful comparisons.
\<close>

function FindSlot_loop ::
  "Page \<Rightarrow> byte list \<Rightarrow> nat \<Rightarrow> nat \<Rightarrow> nat \<Rightarrow> panic + (nat \<times> nat)" where
  "FindSlot_loop p key low higher good =
     (if 0 < sub32 higher low
      then (case Key p (add32 low (sub32 higher low div 2)) of
              Inl e \<Rightarrow> Inl e
            | Inr k \<Rightarrow>
                if KeyCmp k key < 0
                then FindSlot_loop p key (add32 (add32 low (sub32 higher low div 2)) 1) higher good
                else FindSlot_loop p key low (add32 low (sub32 higher low div 2)) (add32 good 1))
      else Inr (higher, good))"
  by pat_completeness auto
termination
proof (relation "measure (\<lambda>(p, key, low, higher, good). sub32 higher low)")
  show "wf (measure (\<lambda>(p, key, low, higher, good). sub32 higher low))" by simp
next
  fix p :: Page and key :: "byte list" and low higher good :: nat and k :: "byte list"
  assume d: "0 < sub32 higher low"
  have "sub32 higher low - sub32 higher low div 2 - 1 < sub32 higher low" using d by simp
  then show "((p, key, add32 (add32 low (sub32 higher low div 2)) 1, higher, good),
              (p, key, low, higher, good))
             \<in> measure (\<lambda>(p, key, low, higher, good). sub32 higher low)"
    using d sub32_upper [OF d] by simp
next
  fix p :: Page and key :: "byte list" and low higher good :: nat and k :: "byte list"
  assume d: "0 < sub32 higher low"
  then show "((p, key, low, add32 low (sub32 higher low div 2), add32 good 1),
              (p, key, low, higher, good))
             \<in> measure (\<lambda>(p, key, low, higher, good). sub32 higher low)"
    by (simp add: sub32_half)
qed

declare FindSlot_loop.simps [simp del]

definition FindSlot :: "Page \<Rightarrow> byte list \<Rightarrow> panic + nat" where
  "FindSlot p key =
     (let higher = (if GetID (Right p) > 0 then add32 (Cnt p) 1 else Cnt p);
          good = (if GetID (Right p) > 0 then 0 else 1)
      in bindR (FindSlot_loop p key 1 higher good) (\<lambda>(higher, good).
         Inr (if good > 0 then higher else 0)))"


subsection \<open>Ordering of the keys of a page\<close>






section \<open>Changing a page: insertSlot, cleanPage and the two halves of splitPage\<close>

lemma bindR_cong [fundef_cong]:
  "m = m' \<Longrightarrow> (\<And>x. m' = Inr x \<Longrightarrow> f x = f' x) \<Longrightarrow> bindR m f = bindR m' f'"
  by (cases m') (simp_all add: bindR_def)

lemma sub32_one_less: "0 < i \<Longrightarrow> sub32 i (Suc 0) < i"
proof -
  assume "0 < i"
  then have "(int i - 1) mod 2 ^ 32 \<le> int i - 1"
    by (intro zmod_le_nonneg_dividend) simp
  then have "nat ((int i - 1) mod 2 ^ 32) < i" using \<open>0 < i\<close> by linarith
  then show ?thesis by (simp add: sub32_def)
qed

subsection \<open>insertSlot\<close>

text \<open>
  The page-level body of \<open>insertSlot\<close>; releasing the latch is left to the caller.
  In the first loop \<open>idx\<close> stays below the \<open>uint32\<close> \<open>Cnt\<close>, so \<open>idx++\<close> cannot wrap.
\<close>

function insertSlot_find :: "Page \<Rightarrow> nat \<Rightarrow> panic + nat" where
  "insertSlot_find p idx =
     (if idx < Cnt p
      then bindR (Dead p idx) (\<lambda>d. if d then Inr idx else insertSlot_find p (idx + 1))
      else Inr idx)"
  by pat_completeness auto
termination
  by (relation "measure (\<lambda>(p, idx). Cnt p - idx)") auto

declare insertSlot_find.simps [simp del]

function insertSlot_move :: "Page \<Rightarrow> nat \<Rightarrow> nat \<Rightarrow> nat \<Rightarrow> panic + Page" where
  "insertSlot_move p idx slot librarian =
     (if idx > sub32 (add32 slot librarian) 1
      then bindR (Dead p (sub32 idx librarian)) (\<lambda>d.
           bindR (SetDead p idx d) (\<lambda>p1.
           bindR (Typ p1 (sub32 idx librarian)) (\<lambda>t.
           bindR (SetTyp p1 idx t) (\<lambda>p2.
           bindR (KeyOffset p2 (sub32 idx librarian)) (\<lambda>off.
           bindR (SetKeyOffset p2 idx off) (\<lambda>p3.
           insertSlot_move p3 (sub32 idx 1) slot librarian))))))
      else Inr p)"
  by pat_completeness auto
termination
  by (relation "measure (\<lambda>(p, idx, slot, librarian). idx)") (auto intro!: sub32_one_less)

declare insertSlot_move.simps [simp del]

text \<open>Filling a slot: offset, type and dead flag, in the order of the source.\<close>

definition set_slot :: "Page \<Rightarrow> nat \<Rightarrow> nat \<Rightarrow> byte \<Rightarrow> bool \<Rightarrow> panic + Page" where
  "set_slot p i off t d =
     bindR (SetKeyOffset p i off) (\<lambda>q. bindR (SetTyp q i t) (\<lambda>q. SetDead q i d))"

text \<open>The first lines of \<open>insertSlot\<close>: step back onto a librarian slot.\<close>

definition insertSlot_start :: "Page \<Rightarrow> nat \<Rightarrow> panic + nat" where
  "insertSlot_start p slot =
     (if slot > 1
      then bindR (Typ p (sub32 slot 1)) (\<lambda>t. Inr (if t = Librarian then sub32 slot 1 else slot))
      else Inr slot)"

text \<open>Copying the value and then the key below \<open>Min\<close>.\<close>

definition insertSlot_copy :: "Page \<Rightarrow> byte list \<Rightarrow> byte list \<Rightarrow> panic + Page" where
  "insertSlot_copy p key value =
     (let min1 = sub32 (MinOff p) (BtId + 1) in
      bindR (copy_to (Data p) min1 (of_nat (length value) # value)) (\<lambda>d1.
      let min2 = sub32 min1 (length key + 1) in
      bindR (copy_to d1 min2 (of_nat (length key) # key)) (\<lambda>d2.
      Inr (p\<lparr>MinOff := min2, Data := d2\<rparr>))))"

definition insertSlot :: "Page \<Rightarrow> nat \<Rightarrow> byte list \<Rightarrow> byte list \<Rightarrow> byte \<Rightarrow> panic + Page" where
  "insertSlot p0 slot0 key value typ =
     bindR (insertSlot_start p0 slot0) (\<lambda>slot.
     bindR (insertSlot_copy p0 key value) (\<lambda>p1.
     bindR (insertSlot_find p1 slot) (\<lambda>idx.
     let librarian = (if idx = Cnt p1 then 2 else 1);
         idx' = (if idx = Cnt p1 then add32 idx 2 else idx);
         p2 = p1\<lparr>Cnt := (if idx = Cnt p1 then add32 (Cnt p1) 2 else Cnt p1),
                  Act := add32 (Act p1) 1\<rparr>
     in
     bindR (insertSlot_move p2 idx' slot librarian) (\<lambda>p3.
     if librarian > 1
     then bindR (set_slot p3 slot (MinOff p3) Librarian True) (\<lambda>p4.
          set_slot p4 (add32 slot 1) (MinOff p4) typ False)
     else set_slot p3 slot (MinOff p3) typ False))))"

subsection \<open>cleanPage\<close>

text \<open>The space test of \<open>cleanPage\<close>, in \<open>uint32\<close>.\<close>

definition need32 :: "nat \<Rightarrow> nat \<Rightarrow> nat \<Rightarrow> nat" where
  "need32 mx keyLen valLen =
     ((mx + 2) * SlotSize + PageHeaderSize + keyLen + 1 + valLen + 1) mod 2 ^ 32"

text \<open>
  Copying entry \<open>cnt\<close> of page \<open>src\<close> into the page being rebuilt, as each of the three
  rebuilding loops of the source does: the value and then the key go below \<open>nxt\<close>,
  a librarian slot is added unless this is the first entry, and the slot itself
  receives the offset and the type of the source slot.  The result is the page,
  the new \<open>idx\<close> and the new \<open>nxt\<close>.
\<close>

definition copy_entry ::
  "Page \<Rightarrow> nat \<Rightarrow> Page \<Rightarrow> nat \<Rightarrow> nat \<Rightarrow> panic + (Page \<times> nat \<times> nat)" where
  "copy_entry src cnt page idx nxt =
     bindR (Value src cnt) (\<lambda>val.
     let nxt1 = sub32 nxt (length val + 1) in
     bindR (copy_to (Data page) nxt1 (of_nat (length val) # val)) (\<lambda>d1.
     bindR (Key src cnt) (\<lambda>key.
     let nxt2 = sub32 nxt1 (length key + 1) in
     bindR (copy_to d1 nxt2 (of_nat (length key) # key)) (\<lambda>d2.
     bindR (if idx > 0
            then bindR (set_slot (page\<lparr>Data := d2\<rparr>) (add32 idx 1) nxt2 Librarian True) (\<lambda>q.
                   Inr (q, add32 idx 1))
            else Inr (page\<lparr>Data := d2\<rparr>, idx)) (\<lambda>(page2, idx1).
     bindR (SetKeyOffset page2 (add32 idx1 1) nxt2) (\<lambda>q.
     bindR (Typ src cnt) (\<lambda>t.
     bindR (SetTyp q (add32 idx1 1) t) (\<lambda>q.
     Inr (q, add32 idx1 1, nxt2)))))))))"

text \<open>
  \<open>SetDead(idx, src.Dead(cnt))\<close> followed by \<open>if !Dead(idx) { Act++ }\<close>.
\<close>

definition copy_dead :: "Page \<Rightarrow> nat \<Rightarrow> Page \<Rightarrow> nat \<Rightarrow> panic + Page" where
  "copy_dead src cnt q idx =
     bindR (Dead src cnt) (\<lambda>d.
     bindR (SetDead q idx d) (\<lambda>q.
     bindR (Dead q idx) (\<lambda>d'.
     Inr (if \<not> d' then q\<lparr>Act := add32 (Act q) 1\<rparr> else q))))"

function cleanPage_loop ::
  "Page \<Rightarrow> nat \<Rightarrow> nat \<Rightarrow> Page \<Rightarrow> nat \<Rightarrow> nat \<Rightarrow> nat \<Rightarrow> nat \<Rightarrow> panic + (Page \<times> nat \<times> nat \<times> nat)" where
  "cleanPage_loop frame mx slot page cnt idx nxt newSlot =
     (if cnt < mx
      then
        bindR (if cnt + 1 < mx then Dead frame (cnt + 1) else Inr False) (\<lambda>skip.
        if skip
        then cleanPage_loop frame mx slot page (cnt + 1) idx nxt
               (if cnt + 1 = slot then (if idx = 0 then 1 else add32 idx 2) else newSlot)
        else
          bindR (copy_entry frame (cnt + 1) page idx nxt) (\<lambda>(q, idx2, nxt2).
          bindR (copy_dead frame (cnt + 1) q idx2) (\<lambda>q.
          cleanPage_loop frame mx slot q (cnt + 1) idx2 nxt2
            (if cnt + 1 = slot then (if idx = 0 then 1 else add32 idx 2) else newSlot))))
      else Inr (page, idx, nxt, newSlot))"
  by pat_completeness auto
termination
  by (relation "measure (\<lambda>(frame, mx, slot, page, cnt, idx, nxt, newSlot). mx - cnt)") auto

declare cleanPage_loop.simps [simp del]

definition cleanPage :: "nat \<Rightarrow> Page \<Rightarrow> nat \<Rightarrow> nat \<Rightarrow> nat \<Rightarrow> panic + (nat \<times> Page)" where
  "cleanPage pageDataSize page keyLen slot valLen =
     (let mx = Cnt page in
      if MinOff page \<ge> need32 mx keyLen valLen then Inr (slot, page)
      else if Garbage page < pageDataSize div 5 then Inr (0, page)
      else
        let frame = MemCpyPage (NewPage pageDataSize) page;
            page1 = page\<lparr>Data := replicate pageDataSize 0, Garbage := 0, Act := 0\<rparr>
        in bindR (cleanPage_loop frame mx slot page1 0 0 pageDataSize mx)
             (\<lambda>(page2, idx, nxt, newSlot).
                let page3 = page2\<lparr>MinOff := nxt, Cnt := idx\<rparr> in
                if MinOff page3 \<ge> need32 idx keyLen valLen then Inr (newSlot, page3)
                else Inr (0, page3)))"


subsection \<open>The two rebuilding loops of splitPage\<close>

function splitPage_upper ::
  "Page \<Rightarrow> nat \<Rightarrow> Page \<Rightarrow> nat \<Rightarrow> nat \<Rightarrow> nat \<Rightarrow> panic + (Page \<times> nat \<times> nat)" where
  "splitPage_upper src mx frame cnt idx nxt =
     (if cnt < mx
      then
        bindR (if cnt + 1 < mx \<or> Lvl src > 0 then Dead src (cnt + 1) else Inr False) (\<lambda>skip.
        if skip then splitPage_upper src mx frame (cnt + 1) idx nxt
        else
          bindR (copy_entry src (cnt + 1) frame idx nxt) (\<lambda>(q, idx2, nxt2).
          bindR (copy_dead src (cnt + 1) q idx2) (\<lambda>q.
          splitPage_upper src mx q (cnt + 1) idx2 nxt2)))
      else Inr (frame, idx, nxt))"
  by pat_completeness auto
termination
  by (relation "measure (\<lambda>(src, mx, frame, cnt, idx, nxt). mx - cnt)") auto

declare splitPage_upper.simps [simp del]

function splitPage_lower ::
  "Page \<Rightarrow> nat \<Rightarrow> Page \<Rightarrow> nat \<Rightarrow> nat \<Rightarrow> nat \<Rightarrow> panic + (Page \<times> nat \<times> nat)" where
  "splitPage_lower frame mx page cnt idx nxt =
     (if cnt < mx
      then
        bindR (Dead frame (cnt + 1)) (\<lambda>skip.
        if skip then splitPage_lower frame mx page (cnt + 1) idx nxt
        else
          bindR (copy_entry frame (cnt + 1) page idx nxt) (\<lambda>(q, idx2, nxt2).
          splitPage_lower frame mx (q\<lparr>Act := add32 (Act q) 1\<rparr>) (cnt + 1) idx2 nxt2))
      else Inr (page, idx, nxt))"
  by pat_completeness auto
termination
  by (relation "measure (\<lambda>(frame, mx, page, cnt, idx, nxt). mx - cnt)") auto

declare splitPage_lower.simps [simp del]

section \<open>The buffer manager\<close>

text \<open>
  The model is of one thread.  The buffer pool (hash chains, clock sweep, pins) and
  the latches are not modelled: \<open>pages\<close> maps a page number to the contents that the
  pool or else the file holds for it, and a page that cannot be read has no entry.
  Writing never fails.  \<open>pageZero_alloc\<close> is the right pointer of the memory-mapped
  page zero.
\<close>

datatype BLTLockMode = LockNone | LockAccess | LockDelete | LockRead | LockWrite | LockParent

record BufMgr =
  pageSize :: nat
  pageBits :: nat
  pageDataSize :: nat
  pageZero_alloc :: "byte list"
  pageZero_dups :: nat
  pageZero_chain :: "byte list"
  latchTotal :: nat
  latchHash :: nat
  pages :: "nat \<Rightarrow> Page option"
  mgr_err :: BLTErr

text \<open>A computation that may run out of fuel (\<open>None\<close>) or panic.\<close>

type_synonym 'a run = "(panic + 'a) option"

definition bindO :: "'a run \<Rightarrow> ('a \<Rightarrow> 'b run) \<Rightarrow> 'b run" where
  "bindO m f = (case m of None \<Rightarrow> None | Some (Inl e) \<Rightarrow> Some (Inl e) | Some (Inr x) \<Rightarrow> f x)"

lemma bindO_cong [fundef_cong]:
  "m = m' \<Longrightarrow> (\<And>x. m' = Some (Inr x) \<Longrightarrow> f x = f' x) \<Longrightarrow> bindO m f = bindO m' f'"
  by (cases m') (auto simp: bindO_def split: sum.splits)

subsection \<open>Creating the file\<close>

text \<open>
  One round of the loop of \<open>NewBufMgr\<close> that writes the root (\<open>lvl = 1\<close>) and the
  first leaf (\<open>lvl = 0\<close>); the page \<open>alloc\<close> is reused from one round to the next.
\<close>

definition init_level :: "nat \<Rightarrow> Page \<Rightarrow> nat \<Rightarrow> panic + Page" where
  "init_level pds alloc lvl =
     (let z = (if lvl > 0 then add32 1 BtId else 1) in
      bindR (SetKeyOffset alloc 1 (sub32 (sub32 pds 3) z)) (\<lambda>a.
      bindR (SetKey a [0xff, 0xff] 1) (\<lambda>a.
      bindR (if lvl > 0 then SetValue a (PutID (MinLvl - lvl + 1)) 1 else SetValue a [] 1) (\<lambda>a.
      bindR (KeyOffset a 1) (\<lambda>off.
      Inr (a\<lparr>MinOff := off, Lvl := lvl, Cnt := 1, Act := 1\<rparr>))))))"

text \<open>
  \<open>NewBufMgr\<close>.  \<open>file\<close> is what the file holds when it is opened: a file whose
  first page can be read and records its page bits is an existing tree, any other
  file is initialised.  The result is \<open>None\<close> where the source returns \<open>nil\<close>.
\<close>

definition NewBufMgr :: "(nat \<Rightarrow> Page option) \<Rightarrow> nat \<Rightarrow> nat \<Rightarrow> panic + BufMgr option" where
  "NewBufMgr file bits0 nodeMax =
     (let bits1 = (if bits0 > BtMaxBits then BtMaxBits
                   else if bits0 < BtMinBits then BtMinBits else bits0)
      in
      if nodeMax < 16 then Inr None
      else
        let initit = (case file 0 of None \<Rightarrow> True | Some p \<Rightarrow> \<not> Bits p > 0);
            bits = (case file 0 of None \<Rightarrow> bits1 | Some p \<Rightarrow> if Bits p > 0 then Bits p else bits1);
            pds = 2 ^ bits - PageHeaderSize;
            m = \<lparr>pageSize = 2 ^ bits, pageBits = bits, pageDataSize = pds,
                 pageZero_alloc = (case file 0 of None \<Rightarrow> [] | Some p \<Rightarrow> Right p),
                 pageZero_dups = 0, pageZero_chain = [0, 0, 0, 0, 0, 0],
                 latchTotal = nodeMax, latchHash = nodeMax div 16,
                 pages = file, mgr_err = BLTErrOk\<rparr>
        in
        if initit
        then
          let zero = (NewPage pds)\<lparr>Bits := bits, Right := PutID (MinLvl + 1)\<rparr>;
              m0 = m\<lparr>pages := (pages m)(0 \<mapsto> zero)\<rparr>;
              alloc = (NewPage pds)\<lparr>Bits := bits\<rparr>
          in
          bindR (init_level pds alloc 1) (\<lambda>root.
          let m1 = m0\<lparr>pages := (pages m0)(MinLvl - 1 \<mapsto> root)\<rparr> in
          bindR (init_level pds root 0) (\<lambda>leaf.
          let m2 = m1\<lparr>pages := (pages m1)(MinLvl - 0 \<mapsto> leaf)\<rparr> in
          Inr (Some (m2\<lparr>pageZero_alloc := Right zero\<rparr>))))
        else Inr (Some m))"

subsection \<open>Pinning, allocating and freeing pages\<close>

text \<open>
  \<open>PinLatch\<close> with \<open>loadIt\<close> followed by \<open>MapPage\<close>: the page, or \<open>nil\<close> with
  \<open>BLTErrRead\<close> when it cannot be read.
\<close>

definition PinLatch :: "BufMgr \<Rightarrow> nat \<Rightarrow> Page option \<times> BufMgr" where
  "PinLatch m pageNo =
     (case pages m pageNo of
        None \<Rightarrow> (None, m\<lparr>mgr_err := BLTErrRead\<rparr>)
      | Some p \<Rightarrow> (Some p, m))"

text \<open>The method \<open>NewPage\<close> of the manager: error, page number of the new page, manager.\<close>

definition BufMgr_NewPage :: "BufMgr \<Rightarrow> Page \<Rightarrow> BLTErr \<times> nat \<times> BufMgr" where
  "BufMgr_NewPage m contents =
     (if GetID (pageZero_chain m) > 0
      then
        (case PinLatch m (GetID (pageZero_chain m)) of
           (None, m1) \<Rightarrow> (BLTErrStruct, 0, m1\<lparr>mgr_err := BLTErrStruct\<rparr>)
         | (Some pg, m1) \<Rightarrow>
             (BLTErrOk, GetID (pageZero_chain m),
              m1\<lparr>pageZero_chain := PutID (GetID (Right pg)),
                  pages := (pages m1)(GetID (pageZero_chain m) \<mapsto> MemCpyPage pg contents),
                  mgr_err := BLTErrOk\<rparr>))
      else
        (BLTErrOk, GetID (pageZero_alloc m),
         m\<lparr>pageZero_alloc := PutID (GetID (pageZero_alloc m) + 1),
            pages := (pages m)(GetID (pageZero_alloc m) \<mapsto>
                       MemCpyPage (NewPage (pageDataSize m)) contents),
            mgr_err := BLTErrOk\<rparr>))"

definition FreePage :: "BufMgr \<Rightarrow> nat \<Rightarrow> Page \<Rightarrow> BufMgr" where
  "FreePage m pageNo page =
     m\<lparr>pages := (pages m)(pageNo \<mapsto> page\<lparr>Right := pageZero_chain m, Free := True\<rparr>),
        pageZero_chain := PutID pageNo\<rparr>"

subsection \<open>LoadPage\<close>

text \<open>The loop over dead slots on an inner page; \<open>None\<close> is the jump to the right sibling.\<close>

function LoadPage_skip :: "Page \<Rightarrow> nat \<Rightarrow> panic + nat option" where
  "LoadPage_skip p slot =
     bindR (Dead p slot) (\<lambda>d.
       if d then (if slot < Cnt p then LoadPage_skip p (slot + 1) else Inr None)
       else Inr (Some slot))"
  by pat_completeness auto
termination
  by (relation "measure (\<lambda>(p, slot). Cnt p - slot)") auto

declare LoadPage_skip.simps [simp del]

text \<open>
  The descent.  The result is the slot (0 on failure), the latch that \<open>set\<close> holds
  (\<open>None\<close> is \<open>nil\<close>) and the manager.  Levels are \<open>uint8\<close>.
\<close>

fun LoadPage_loop ::
  "nat \<Rightarrow> BufMgr \<Rightarrow> byte list \<Rightarrow> nat \<Rightarrow> BLTLockMode \<Rightarrow> nat \<Rightarrow> nat \<Rightarrow> nat option
   \<Rightarrow> (nat \<times> nat option \<times> BufMgr) run" where
  "LoadPage_loop 0 m key lvl lock pageNo drill cur = None"
| "LoadPage_loop (Suc n) m key lvl lock pageNo drill cur =
     (if pageNo > 0
      then
        (case PinLatch m pageNo of
           (None, m1) \<Rightarrow> Some (Inr (0, None, m1))
         | (Some page, m1) \<Rightarrow>
             if Free page then Some (Inr (0, Some pageNo, m1\<lparr>mgr_err := BLTErrStruct\<rparr>))
             else if Lvl page \<noteq> drill \<and> pageNo \<noteq> RootPage
             then Some (Inr (0, Some pageNo, m1\<lparr>mgr_err := BLTErrStruct\<rparr>))
             else if Lvl page \<noteq> drill \<and> lock \<noteq> LockRead \<and> Lvl page = lvl
             then LoadPage_loop n m1 key lvl lock pageNo (Lvl page) (Some pageNo)
             else if Kill page
             then LoadPage_loop n m1 key lvl lock (GetID (Right page)) (Lvl page) (Some pageNo)
             else
               (case FindSlot page key of
                  Inl e \<Rightarrow> Some (Inl e)
                | Inr slot \<Rightarrow>
                    if slot > 0
                    then
                      if Lvl page = lvl then Some (Inr (slot, Some pageNo, m1))
                      else
                        (case LoadPage_skip page slot of
                           Inl e \<Rightarrow> Some (Inl e)
                         | Inr None \<Rightarrow>
                             LoadPage_loop n m1 key lvl lock (GetID (Right page)) (Lvl page)
                               (Some pageNo)
                         | Inr (Some s) \<Rightarrow>
                             (case Value page s of
                                Inl e \<Rightarrow> Some (Inl e)
                              | Inr v \<Rightarrow>
                                  LoadPage_loop n m1 key lvl lock (GetIDFromValue v)
                                    ((Lvl page + 255) mod 256) (Some pageNo)))
                    else
                      LoadPage_loop n m1 key lvl lock (GetID (Right page)) (Lvl page)
                        (Some pageNo)))
      else Some (Inr (0, cur, m\<lparr>mgr_err := BLTErrStruct\<rparr>)))"

definition LoadPage ::
  "nat \<Rightarrow> BufMgr \<Rightarrow> byte list \<Rightarrow> nat \<Rightarrow> BLTLockMode \<Rightarrow> (nat \<times> nat option \<times> BufMgr) run" where
  "LoadPage n m key lvl lock = LoadPage_loop n m key lvl lock RootPage 255 None"

section \<open>The tree\<close>

record BLTree =
  mgr :: BufMgr
  found :: bool
  err :: BLTErr

definition NewBLTree :: "BufMgr \<Rightarrow> BLTree" where
  "NewBLTree bufMgr = \<lparr>mgr = bufMgr, found = False, err = BLTErrOk\<rparr>"

text \<open>Storing a changed page back into the frame that \<open>set.page\<close> points to.\<close>

definition put_page :: "BLTree \<Rightarrow> nat \<Rightarrow> Page \<Rightarrow> BLTree" where
  "put_page t pageNo p = t\<lparr>mgr := (mgr t)\<lparr>pages := (pages (mgr t))(pageNo \<mapsto> p)\<rparr>\<rparr>"

text \<open>The page behind a latch; a nil latch panics.\<close>

definition set_page :: "BLTree \<Rightarrow> nat option \<Rightarrow> panic + (nat \<times> Page)" where
  "set_page t cur =
     (case cur of
        None \<Rightarrow> Inl NilDeref
      | Some pageNo \<Rightarrow>
          (case pages (mgr t) pageNo of None \<Rightarrow> Inl NilDeref | Some p \<Rightarrow> Inr (pageNo, p)))"

subsection \<open>findKey\<close>

text \<open>\<open>findNext\<close>: the next slot (0 on failure), the latch of \<open>set\<close>, the tree.\<close>

definition findNext :: "BLTree \<Rightarrow> nat \<Rightarrow> Page \<Rightarrow> nat \<Rightarrow> nat \<times> nat option \<times> BLTree" where
  "findNext t pageNo page slot =
     (if slot < Cnt page then (slot + 1, Some pageNo, t)
      else if GetID (Right page) > 0
      then
        (case PinLatch (mgr t) (GetID (Right page)) of
           (None, m1) \<Rightarrow> (0, None, t\<lparr>mgr := m1\<rparr>)
         | (Some p, m1) \<Rightarrow> (1, Some (GetID (Right page)), t\<lparr>mgr := m1\<rparr>))
      else (0, Some pageNo, t\<lparr>err := BLTErrStruct\<rparr>))"

text \<open>
  One round of the loop of \<open>findKey\<close> on the page of \<open>set\<close>: the key is found, the
  search ends without it, or the slot is dead and the search goes on behind it.
\<close>

datatype findKey_step =
  Found nat "byte list" "byte list" | NotFound "byte list" | Skip nat "byte list"

definition findKey_slot :: "Page \<Rightarrow> byte list \<Rightarrow> nat \<Rightarrow> nat \<Rightarrow> panic + findKey_step" where
  "findKey_slot page key valMax slot =
     bindR (Key page slot) (\<lambda>ptr0.
     bindR (Typ page slot) (\<lambda>t0.
     bindR (if t0 = Librarian
            then bindR (Key page (add32 slot 1)) (\<lambda>k. Inr (add32 slot 1, k))
            else Inr (slot, ptr0)) (\<lambda>(slot1, ptr).
     bindR (Typ page slot1) (\<lambda>t1.
     if slot1 = Cnt page \<and> GetID (Right page) = 0 then Inr (NotFound ptr)
     else
       bindR (Dead page slot1) (\<lambda>dead.
       if dead then Inr (Skip slot1 ptr)
       else if int (length ptr) - (if t1 = Duplicate then int BtId else 0) = int (length key)
               \<and> KeyCmp (take (length key) ptr) key = 0
       then bindR (Value page slot1) (\<lambda>val.
              Inr (Found (min valMax (length val)) ptr (take (min valMax (length val)) val)))
       else Inr (NotFound ptr))))))"

text \<open>
  The loop of \<open>findKey\<close>.  The result is \<open>ret\<close>, \<open>foundKey\<close>, \<open>foundValue\<close> and the tree;
  after the loop the read latch of \<open>set\<close> is released, which panics on a nil latch.
\<close>

fun findKey_loop ::
  "nat \<Rightarrow> BLTree \<Rightarrow> byte list \<Rightarrow> nat \<Rightarrow> nat option \<Rightarrow> nat \<Rightarrow> byte list
   \<Rightarrow> (int \<times> byte list \<times> byte list \<times> BLTree) run" where
  "findKey_loop 0 t key valMax cur slot foundKey = None"
| "findKey_loop (Suc n) t key valMax cur slot foundKey =
     (if slot > 0
      then
        (case set_page t cur of
           Inl e \<Rightarrow> Some (Inl e)
         | Inr (pageNo, page) \<Rightarrow>
             (case findKey_slot page key valMax slot of
                Inl e \<Rightarrow> Some (Inl e)
              | Inr (Found ret ptr val) \<Rightarrow> Some (Inr (int ret, ptr, val, t))
              | Inr (NotFound ptr) \<Rightarrow> Some (Inr (- 1, ptr, [], t))
              | Inr (Skip slot1 ptr) \<Rightarrow>
                  (case findNext t pageNo page slot1 of
                     (slot2, cur2, t2) \<Rightarrow> findKey_loop n t2 key valMax cur2 slot2 ptr)))
      else
        (case cur of
           None \<Rightarrow> Some (Inl NilDeref)
         | Some pageNo \<Rightarrow> Some (Inr (- 1, foundKey, [], t))))"

definition findKey ::
  "nat \<Rightarrow> BLTree \<Rightarrow> byte list \<Rightarrow> nat \<Rightarrow> (int \<times> byte list \<times> byte list \<times> BLTree) run" where
  "findKey n t key valMax =
     bindO (LoadPage n (mgr t) key 0 LockRead) (\<lambda>(slot, cur, m1).
     findKey_loop n (t\<lparr>mgr := m1\<rparr>) key valMax cur slot [])"


subsection \<open>Splitting\<close>

text \<open>
  \<open>splitPage\<close>: the upper half of the keys goes to a new right page, the lower half
  is rebuilt in place.  The result is the page number of the right page, or
  \<open>None\<close> where the source returns entry 0.
\<close>

definition splitPage :: "BLTree \<Rightarrow> nat \<Rightarrow> Page \<Rightarrow> panic + (nat option \<times> BLTree)" where
  "splitPage t pageNo page =
     (let pds = pageDataSize (mgr t); mx = Cnt page in
      bindR (splitPage_upper page mx (NewPage pds) (mx div 2) 0 pds) (\<lambda>(frame0, idx, nxt).
      let frame1 = frame0\<lparr>Bits := pageBits (mgr t), MinOff := nxt, Cnt := idx, Lvl := Lvl page\<rparr>;
          frame = (if pageNo > RootPage then frame1\<lparr>Right := PutID (GetID (Right page))\<rparr>
                   else frame1)
      in
      (case BufMgr_NewPage (mgr t) frame of
         (e, right, m1) \<Rightarrow>
           if e \<noteq> BLTErrOk then Inr (None, t\<lparr>mgr := m1\<rparr>)
           else
             (case pages m1 pageNo of
                None \<Rightarrow> Inl NilDeref
              | Some page1 \<Rightarrow>
                  let frame2 = MemCpyPage frame page1;
                      page2 = page1\<lparr>Data := replicate pds 0, Garbage := 0, Act := 0\<rparr>
                  in
                  bindR (Typ frame2 (mx div 2)) (\<lambda>ty.
                  bindR (splitPage_lower frame2
                           (if ty = Librarian then sub32 (mx div 2) 1 else mx div 2)
                           page2 0 0 pds) (\<lambda>(page3, idx3, nxt3).
                  Inr (Some right,
                       put_page (t\<lparr>mgr := m1\<rparr>) pageNo
                         (page3\<lparr>Right := PutID right, MinOff := nxt3, Cnt := idx3\<rparr>))))))))"

text \<open>\<open>splitRoot\<close>: the root keeps two keys, the fence of the left page and the stopper.\<close>

definition splitRoot :: "BLTree \<Rightarrow> Page \<Rightarrow> nat \<Rightarrow> panic + (BLTErr \<times> BLTree)" where
  "splitRoot t root right =
     (let pds = pageDataSize (mgr t) in
      bindR (Key root (Cnt root)) (\<lambda>leftKey.
      (case BufMgr_NewPage (mgr t) root of
         (e, left, m1) \<Rightarrow>
           if e \<noteq> BLTErrOk then Inr (e, t\<lparr>mgr := m1\<rparr>)
           else
             (case pages m1 RootPage of
                None \<Rightarrow> Inl NilDeref
              | Some root1 \<Rightarrow>
                  let d0 = replicate pds 0;
                      nxt1 = sub32 pds (BtId + 1)
                  in
                  bindR (copy_to d0 nxt1 (of_nat BtId # PutID right)) (\<lambda>d1.
                  let nxt2 = sub32 nxt1 (2 + 1) in
                  bindR (SetKeyOffset (root1\<lparr>Data := d1\<rparr>) 2 nxt2) (\<lambda>r2.
                  bindR (copy_to (Data r2) nxt2 [2, 0xff, 0xff]) (\<lambda>d2.
                  let nxt3 = sub32 nxt2 (BtId + 1) in
                  bindR (copy_to d2 nxt3 (of_nat BtId # PutID left)) (\<lambda>d3.
                  let nxt4 = sub32 nxt3 (length leftKey + 1) in
                  bindR (SetKeyOffset (r2\<lparr>Data := d3\<rparr>) 1 nxt4) (\<lambda>r4.
                  bindR (copy_to (Data r4) nxt4 (of_nat (length leftKey) # leftKey)) (\<lambda>d4.
                  Inr (BLTErrOk,
                       put_page (t\<lparr>mgr := m1\<rparr>) RootPage
                         (r4\<lparr>Data := d4, Right := PutID 0, MinOff := nxt4, Cnt := 2, Act := 2,
                             Lvl := (Lvl r4 + 1) mod 256\<rparr>))))))))))))"

subsection \<open>insertKey\<close>

text \<open>
  The branch of \<open>insertKey\<close> that updates the value of a key already on the page.
\<close>

definition insertKey_update :: "Page \<Rightarrow> nat \<Rightarrow> byte list \<Rightarrow> panic + Page" where
  "insertKey_update page slot value =
     bindR (Dead page slot) (\<lambda>d.
     bindR (SetDead (if d then page\<lparr>Act := add32 (Act page) 1\<rparr> else page) slot False) (\<lambda>q.
     SetValue q value slot))"

text \<open>
  What \<open>insertKey\<close> reads on the page that \<open>LoadPage\<close> returns: the slot after
  stepping over a librarian slot with the same key, and whether a new entry is
  inserted (or else the value of an existing one updated).
\<close>

definition insertKey_slot ::
  "Page \<Rightarrow> nat \<Rightarrow> byte list \<Rightarrow> byte list \<Rightarrow> bool \<Rightarrow> panic + (nat \<times> bool)" where
  "insertKey_slot page slot0 key ins uniq =
     bindR (Key page slot0) (\<lambda>ptr0.
     bindR (Typ page slot0) (\<lambda>t0.
     bindR (if t0 = Librarian \<and> KeyCmp ptr0 key = 0
            then bindR (Key page (add32 slot0 1)) (\<lambda>k. Inr (add32 slot0 1, k))
            else Inr (slot0, ptr0)) (\<lambda>(slot, ptr).
     bindR (Typ page slot) (\<lambda>t1.
     let keyLen = (if t1 = Duplicate then (length ptr + 256 - BtId) mod 256
                   else length ptr mod 256)
     in Inr (slot, (uniq \<and> (keyLen \<noteq> length ins mod 256 \<or> KeyCmp ptr ins \<noteq> 0)) \<or> \<not> uniq)))))"

text \<open>
  \<open>insertKey\<close> and \<open>splitKeys\<close>.  Every round of the loop of \<open>insertKey\<close> and every
  call uses up one unit of fuel.
\<close>

fun insertKey_loop ::
  "nat \<Rightarrow> BLTree \<Rightarrow> byte list \<Rightarrow> byte list \<Rightarrow> nat \<Rightarrow> byte list \<Rightarrow> bool \<Rightarrow> byte
   \<Rightarrow> (BLTErr \<times> BLTree) run"
and splitKeys :: "nat \<Rightarrow> BLTree \<Rightarrow> nat \<Rightarrow> nat \<Rightarrow> (BLTErr \<times> BLTree) run" where
  "insertKey_loop 0 t key ins lvl value uniq typ = None"
| "insertKey_loop (Suc n) t key ins lvl value uniq typ =
     bindO (LoadPage n (mgr t) key lvl LockWrite) (\<lambda>(slot0, cur, m1).
     (case cur of
        None \<Rightarrow> Some (Inl NilDeref)
      | Some pageNo \<Rightarrow>
          if slot0 = 0
          then Some (Inr (if err t \<noteq> BLTErrOk
                          then (BLTErrOverflow, t\<lparr>mgr := m1, err := BLTErrOverflow\<rparr>)
                          else (err t, t\<lparr>mgr := m1\<rparr>)))
          else
            (case pages m1 pageNo of
               None \<Rightarrow> Some (Inl NilDeref)
             | Some page \<Rightarrow>
                 bindO (Some (insertKey_slot page slot0 key ins uniq)) (\<lambda>(slot, new).
                 if new
                 then
                   bindO (Some (cleanPage (pageDataSize m1) page (length ins mod 256) slot BtId))
                     (\<lambda>(slot2, page2).
                   if slot2 = 0
                   then
                     bindO (Some (splitPage (put_page (t\<lparr>mgr := m1\<rparr>) pageNo page2) pageNo page2))
                       (\<lambda>(entry, t2).
                     (case entry of
                        None \<Rightarrow> Some (Inr (err t2, t2))
                      | Some right \<Rightarrow>
                          bindO (splitKeys n t2 pageNo right) (\<lambda>(e, t3).
                          if e \<noteq> BLTErrOk then Some (Inr (e, t3))
                          else insertKey_loop n t3 key ins lvl value uniq typ)))
                   else
                     bindO (Some (insertSlot page2 slot2 ins value typ)) (\<lambda>page3.
                     Some (Inr (BLTErrOk, put_page (t\<lparr>mgr := m1\<rparr>) pageNo page3))))
                 else
                   bindO (Some (insertKey_update page slot value)) (\<lambda>page3.
                   Some (Inr (BLTErrOk, put_page (t\<lparr>mgr := m1\<rparr>) pageNo page3)))))))"
| "splitKeys 0 t pageNo right = None"
| "splitKeys (Suc n) t pageNo right =
     (case pages (mgr t) pageNo of
        None \<Rightarrow> Some (Inl NilDeref)
      | Some page \<Rightarrow>
          if RootPage = pageNo then Some (splitRoot t page right)
          else
            (case pages (mgr t) right of
               None \<Rightarrow> Some (Inl NilDeref)
             | Some rpage \<Rightarrow>
                 bindO (Some (Key page (Cnt page))) (\<lambda>leftKey.
                 bindO (Some (Key rpage (Cnt rpage))) (\<lambda>rightKey.
                 bindO (insertKey_loop n t leftKey leftKey ((Lvl page + 1) mod 256) (PutID pageNo)
                          True Unique) (\<lambda>(e1, t1).
                 if e1 \<noteq> BLTErrOk then Some (Inr (e1, t1))
                 else insertKey_loop n t1 rightKey rightKey ((Lvl page + 1) mod 256) (PutID right)
                        True Unique)))))"


text \<open>\<open>insertKey\<close>: a key that need not be unique gets the next sequence number appended.\<close>

definition insertKey ::
  "nat \<Rightarrow> BLTree \<Rightarrow> byte list \<Rightarrow> nat \<Rightarrow> byte list \<Rightarrow> bool \<Rightarrow> (BLTErr \<times> BLTree) run" where
  "insertKey n t key lvl value uniq =
     (if uniq then insertKey_loop n t key key lvl value uniq Unique
      else
        let t1 = t\<lparr>mgr := (mgr t)\<lparr>pageZero_dups := (pageZero_dups (mgr t) + 1) mod 2 ^ 64\<rparr>\<rparr>
        in insertKey_loop n t1 key (key @ PutID (pageZero_dups (mgr t1))) lvl value uniq Duplicate)"

subsection \<open>deleteKey\<close>

lemma slot_ok_zero: "\<not> slot_ok p 0"
  by (simp add: slot_ok_def slot_off_def mul32_def sub32_def add32_def SlotSize_def)

text \<open>
  The loop of \<open>deleteKey\<close> that removes the dead slots right beneath the fence:
  the fence slot is copied one slot down and the last slot is cleared.
\<close>

function deleteKey_collapse :: "Page \<Rightarrow> panic + Page" where
  "deleteKey_collapse p =
     (if sub32 (Cnt p) 1 > 0
      then bindR (Dead p (sub32 (Cnt p) 1)) (\<lambda>d.
           if d
           then bindR (slotBytes p (sub32 (Cnt p) 1)) (\<lambda>dst.
                bindR (slotBytes p (add32 (sub32 (Cnt p) 1) 1)) (\<lambda>src.
                bindR (ClearSlot (put_slot p (sub32 (Cnt p) 1) src) (Cnt p)) (\<lambda>q.
                deleteKey_collapse (q\<lparr>Cnt := sub32 (Cnt q) 1\<rparr>))))
           else Inr p)
      else Inr p)"
  by pat_completeness auto
termination
proof (relation "measure Cnt")
  show "wf (measure Cnt)" by simp
next
  fix p :: Page and d dst src q
  assume a: "0 < sub32 (Cnt p) 1"
    and s: "slotBytes p (add32 (sub32 (Cnt p) 1) 1) = Inr src"
    and c: "ClearSlot (put_slot p (sub32 (Cnt p) 1) src) (Cnt p) = Inr q"
  have cq: "Cnt q = Cnt p"
    using c by (auto simp: ClearSlot_def put_slot_def bindR_def split: sum.splits)
  have "Cnt p \<noteq> 0"
  proof
    assume z: "Cnt p = 0"
    have "add32 (sub32 0 1) 1 = 0" by (simp add: add32_def sub32_def)
    with s z have "slotBytes p 0 = Inr src" by simp
    then show False using slot_ok_zero [of p] by (simp add: slotBytes_def split: if_splits)
  qed
  then have "sub32 (Cnt p) (Suc 0) < Cnt p" by (intro sub32_one_less) simp
  then show "(q\<lparr>Cnt := sub32 (Cnt q) 1\<rparr>, p) \<in> measure Cnt" using cq by simp
qed

declare deleteKey_collapse.simps [simp del]

text \<open>
  What \<open>deleteKey\<close> does on the page that \<open>LoadPage\<close> returns: the result is the
  page, \<open>found\<close>, whether the slot is the fence, and the key read at the slot.
\<close>

definition deleteKey_slot ::
  "Page \<Rightarrow> nat \<Rightarrow> byte list \<Rightarrow> panic + (Page \<times> bool \<times> bool)" where
  "deleteKey_slot page slot0 key =
     bindR (Key page slot0) (\<lambda>ptr0.
     bindR (Typ page slot0) (\<lambda>t0.
     bindR (if t0 = Librarian
            then bindR (Key page (add32 slot0 1)) (\<lambda>k. Inr (add32 slot0 1, k))
            else Inr (slot0, ptr0)) (\<lambda>(slot, ptr).
     if KeyCmp ptr key = 0
     then bindR (Dead page slot) (\<lambda>d.
          if \<not> d
          then bindR (Value page slot) (\<lambda>val.
               bindR (SetDead page slot True) (\<lambda>q.
               bindR (deleteKey_collapse
                        (q\<lparr>Garbage := add32 (Garbage q)
                                          (add32 ((1 + length ptr) mod 2 ^ 32)
                                                 ((1 + length val) mod 2 ^ 32)),
                            Act := sub32 (Act q) 1\<rparr>)) (\<lambda>q2.
               Inr (q2, True, slot = Cnt page))))
          else Inr (page, False, slot = Cnt page))
     else Inr (page, False, slot = Cnt page))))"

text \<open>
  \<open>collapseRoot\<close>: the first slot of the root that is not dead names the child
  whose contents replace the root.
\<close>

function collapseRoot_idx :: "Page \<Rightarrow> nat \<Rightarrow> panic + nat" where
  "collapseRoot_idx p idx =
     (if idx \<le> Cnt p
      then bindR (Dead p idx) (\<lambda>d. if \<not> d then Inr idx else collapseRoot_idx p (idx + 1))
      else Inr idx)"
  by pat_completeness auto
termination
  by (relation "measure (\<lambda>(p, idx). Suc (Cnt p) - idx)") auto

declare collapseRoot_idx.simps [simp del]

fun collapseRoot :: "nat \<Rightarrow> BLTree \<Rightarrow> nat \<Rightarrow> (BLTErr \<times> BLTree) run" where
  "collapseRoot 0 t rootNo = None"
| "collapseRoot (Suc n) t rootNo =
     (case pages (mgr t) rootNo of
        None \<Rightarrow> Some (Inl NilDeref)
      | Some root \<Rightarrow>
          bindO (Some (bindR (collapseRoot_idx root 1) (\<lambda>idx. Value root idx))) (\<lambda>v.
          (case PinLatch (mgr t) (GetIDFromValue v) of
             (None, m1) \<Rightarrow> Some (Inr (err t, t\<lparr>mgr := m1\<rparr>))
           | (Some child, m1) \<Rightarrow>
               let t1 = put_page (t\<lparr>mgr := m1\<rparr>) rootNo (MemCpyPage root child) in
               (case pages (mgr t1) (GetIDFromValue v) of
                  None \<Rightarrow> Some (Inl NilDeref)
                | Some child1 \<Rightarrow>
                    let t2 = t1\<lparr>mgr := FreePage (mgr t1) (GetIDFromValue v) child1\<rparr> in
                    (case pages (mgr t2) rootNo of
                       None \<Rightarrow> Some (Inl NilDeref)
                     | Some root2 \<Rightarrow>
                         if Lvl root2 > 1 \<and> Act root2 = 1 then collapseRoot n t2 rootNo
                         else Some (Inr (BLTErrOk, t2)))))))"

text \<open>\<open>deleteKey\<close>, \<open>fixFence\<close> and \<open>deletePage\<close>.\<close>

fun deleteKey :: "nat \<Rightarrow> BLTree \<Rightarrow> byte list \<Rightarrow> nat \<Rightarrow> (BLTErr \<times> BLTree) run"
and fixFence :: "nat \<Rightarrow> BLTree \<Rightarrow> nat \<Rightarrow> nat \<Rightarrow> (BLTErr \<times> BLTree) run"
and deletePage :: "nat \<Rightarrow> BLTree \<Rightarrow> nat \<Rightarrow> (BLTErr \<times> BLTree) run" where
  "deleteKey 0 t key lvl = None"
| "deleteKey (Suc n) t key lvl =
     bindO (LoadPage n (mgr t) key lvl LockWrite) (\<lambda>(slot0, cur, m1).
     if slot0 = 0 then Some (Inr (err t, t\<lparr>mgr := m1\<rparr>))
     else
       bindO (Some (set_page (t\<lparr>mgr := m1\<rparr>) cur)) (\<lambda>(pageNo, page).
       bindO (Some (deleteKey_slot page slot0 key)) (\<lambda>(page2, fnd, fence).
       let t2 = (put_page (t\<lparr>mgr := m1\<rparr>) pageNo page2)\<lparr>found := fnd\<rparr> in
       if fnd \<and> lvl > 0 \<and> Act page2 > 0 \<and> fence then fixFence n t2 pageNo lvl
       else if lvl > 1 \<and> pageNo = RootPage \<and> Act page2 = 1 then collapseRoot n t2 pageNo
       else if Act page2 = 0 then deletePage n t2 pageNo
       else Some (Inr (BLTErrOk, t2)))))"
| "fixFence 0 t pageNo lvl = None"
| "fixFence (Suc n) t pageNo lvl =
     (case pages (mgr t) pageNo of
        None \<Rightarrow> Some (Inl NilDeref)
      | Some page \<Rightarrow>
          bindO (Some (Key page (Cnt page))) (\<lambda>rightKey.
          bindO (Some (ClearSlot page (Cnt page))) (\<lambda>q.
          bindO (Some (Key (q\<lparr>Cnt := sub32 (Cnt q) 1\<rparr>) (sub32 (Cnt q) 1))) (\<lambda>leftKey.
          bindO (insertKey n (put_page t pageNo (q\<lparr>Cnt := sub32 (Cnt q) 1\<rparr>)) leftKey
                   ((lvl + 1) mod 256) (PutID pageNo) True) (\<lambda>(e1, t1).
          if e1 \<noteq> BLTErrOk then Some (Inr (e1, t1))
          else deleteKey n t1 rightKey ((lvl + 1) mod 256))))))"
| "deletePage 0 t pageNo = None"
| "deletePage (Suc n) t pageNo =
     (case pages (mgr t) pageNo of
        None \<Rightarrow> Some (Inl NilDeref)
      | Some page \<Rightarrow>
          bindO (Some (Key page (Cnt page))) (\<lambda>lowerFence.
          (case PinLatch (mgr t) (GetID (Right page)) of
             (None, m1) \<Rightarrow> Some (Inr (BLTErrOk, t\<lparr>mgr := m1\<rparr>))
           | (Some right, m1) \<Rightarrow>
               bindO (Some (Key right (Cnt right))) (\<lambda>higherFence.
               if Kill right then Some (Inr (BLTErrStruct, t\<lparr>mgr := m1, err := BLTErrStruct\<rparr>))
               else
                 let t1 = put_page (t\<lparr>mgr := m1\<rparr>) pageNo (MemCpyPage page right) in
                 (case pages (mgr t1) (GetID (Right page)) of
                    None \<Rightarrow> Some (Inl NilDeref)
                  | Some right1 \<Rightarrow>
                      let t2 = put_page t1 (GetID (Right page))
                                 (right1\<lparr>Right := PutID pageNo, Kill := True\<rparr>)
                      in
                      (case pages (mgr t2) pageNo of
                         None \<Rightarrow> Some (Inl NilDeref)
                       | Some page2 \<Rightarrow>
                           bindO (insertKey n t2 higherFence ((Lvl page2 + 1) mod 256)
                                    (PutID pageNo) True) (\<lambda>(e1, t3).
                           if e1 \<noteq> BLTErrOk then Some (Inr (e1, t3))
                           else
                             (case pages (mgr t3) pageNo of
                                None \<Rightarrow> Some (Inl NilDeref)
                              | Some page3 \<Rightarrow>
                                  bindO (deleteKey n t3 lowerFence ((Lvl page3 + 1) mod 256))
                                    (\<lambda>(e2, t4).
                                  if e2 \<noteq> BLTErrOk then Some (Inr (e2, t4))
                                  else
                                    (case pages (mgr t4) (GetID (Right page)) of
                                       None \<Rightarrow> Some (Inl NilDeref)
                                     | Some right4 \<Rightarrow>
                                         Some (Inr (BLTErrOk,
                                           t4\<lparr>mgr := FreePage (mgr t4) (GetID (Right page)) right4,
                                              found := True\<rparr>))))))))))))"

section \<open>Statements about a newly created file\<close>

text \<open>
  \<open>fresh_ok m\<close>: the manager holds exactly the pages 0, 1 and 2; page 0 has no key
  and points to page 3 as the next page to allocate; the root (level 1) and the
  leaf (level 0) each hold the stopper key alone, the root's with the page number
  of the leaf as its value, the leaf's with an empty value.
\<close>

definition fresh_ok :: "BufMgr \<Rightarrow> bool" where
  "fresh_ok m \<longleftrightarrow>
     dom (pages m) = {0, 1, 2} \<and> GetID (pageZero_alloc m) = 3
     \<and> (case pages m 0 of None \<Rightarrow> False
         | Some zero \<Rightarrow> Cnt zero = 0 \<and> Act zero = 0 \<and> GetID (Right zero) = 3)
     \<and> (case pages m 1 of None \<Rightarrow> False
         | Some root \<Rightarrow> Lvl root = 1 \<and> Cnt root = 1 \<and> Act root = 1
             \<and> Key root 1 = Inr [0xff, 0xff] \<and> Value root 1 = Inr (PutID 2))
     \<and> (case pages m 2 of None \<Rightarrow> False
         | Some leaf \<Rightarrow> Lvl leaf = 0 \<and> Cnt leaf = 1 \<and> Act leaf = 1
             \<and> Key leaf 1 = Inr [0xff, 0xff] \<and> Value leaf 1 = Inr [])"

text \<open>Page \<open>n\<close> of the file that \<open>NewBufMgr\<close> creates, if it creates one.\<close>

definition created_page :: "nat \<Rightarrow> nat \<Rightarrow> nat \<Rightarrow> Page option" where
  "created_page bits nodeMax n =
     (case NewBufMgr Map.empty bits nodeMax of
        Inl e \<Rightarrow> None
      | Inr None \<Rightarrow> None
      | Inr (Some m) \<Rightarrow> pages m n)"

section \<open>A concrete tree\<close>

text \<open>
  The three pages and the manager that \<open>NewBufMgr\<close> creates for 512-byte pages
  (page bits 9) and a pool of 16 entries.
\<close>

definition fresh_zero :: Page where
  "fresh_zero = \<lparr>Cnt = 0, Act = 0, MinOff = 0, Garbage = 0, Bits = 9, Free = False, Lvl = 0,
      Kill = False, Right = [0, 0, 0, 0, 0, 3], Data = replicate 486 0\<rparr>"

definition fresh_root :: Page where
  "fresh_root = \<lparr>Cnt = 1, Act = 1, MinOff = 476, Garbage = 0, Bits = 9, Free = False, Lvl = 1,
      Kill = False, Right = [0, 0, 0, 0, 0, 0],
      Data = [220, 1, 0, 0, 0, 0] @ replicate 470 0 @ [2, 255, 255, 6, 0, 0, 0, 0, 0, 2]\<rparr>"

definition fresh_leaf :: Page where
  "fresh_leaf = \<lparr>Cnt = 1, Act = 1, MinOff = 482, Garbage = 0, Bits = 9, Free = False, Lvl = 0,
      Kill = False, Right = [0, 0, 0, 0, 0, 0],
      Data = [226, 1, 0, 0, 0, 0] @ replicate 470 0 @ [2, 255, 255, 6, 0, 0, 2, 255, 255, 0]\<rparr>"

definition fresh_mgr :: BufMgr where
  "fresh_mgr = \<lparr>pageSize = 512, pageBits = 9, pageDataSize = 486,
     pageZero_alloc = [0, 0, 0, 0, 0, 3], pageZero_dups = 0,
     pageZero_chain = [0, 0, 0, 0, 0, 0], latchTotal = 16, latchHash = 1,
     pages = [0 \<mapsto> fresh_zero, 1 \<mapsto> fresh_root, 2 \<mapsto> fresh_leaf], mgr_err = BLTErrOk\<rparr>"

text \<open>The error code and the tree that a tree operation returns, if it returns.\<close>

definition result_err :: "(BLTErr \<times> BLTree) run \<Rightarrow> BLTErr option" where
  "result_err r = (case r of None \<Rightarrow> None | Some (Inl p) \<Rightarrow> None | Some (Inr (e, t)) \<Rightarrow> Some e)"

definition result_tree :: "(BLTErr \<times> BLTree) run \<Rightarrow> BLTree option" where
  "result_tree r = (case r of None \<Rightarrow> None | Some (Inl p) \<Rightarrow> None | Some (Inr (e, t)) \<Rightarrow> Some t)"

section \<open>Properties of the page code\<close>

lemmas page_defs = NewPage_def Key_def KeyOffset_def slotBytes_def slot_ok_def slot_off_def
  mul32_def sub32_def add32_def SlotSize_def bindR_def le32_dec_def byte_at_def slice_def

subsection \<open>FindSlot\<close>


lemma KeyCmp_range: "KeyCmp a b = - 1 \<or> KeyCmp a b = 0 \<or> KeyCmp a b = 1"
  by (induction a b rule: KeyCmp.induct) auto

lemma KeyCmp_refl: "KeyCmp a a = 0"
  by (induction a) auto














section \<open>Creating a file\<close>

lemmas eval_defs = page_defs consts_defs NewBufMgr_def init_level_def SetKeyOffset_def SetKey_def
  SetValue_def ValueOffset_def Value_def put_slot_def le32_enc_def copy_to_def PutID_def GetID_def
  Typ_def Dead_def SetTyp_def SetDead_def nth_append nth_Cons' GetIDFromValue_def

lemma fresh_9:
  "bits0 \<le> 9 \<Longrightarrow> 16 \<le> nodeMax
   \<Longrightarrow> \<exists>m. NewBufMgr Map.empty bits0 nodeMax = Inr (Some m) \<and> fresh_ok m"
  by (auto simp add: eval_defs Let_def fresh_ok_def)

lemma fresh_10:
  "16 \<le> nodeMax \<Longrightarrow> \<exists>m. NewBufMgr Map.empty 10 nodeMax = Inr (Some m) \<and> fresh_ok m"
  by (auto simp add: eval_defs Let_def fresh_ok_def)

lemma fresh_11:
  "16 \<le> nodeMax \<Longrightarrow> \<exists>m. NewBufMgr Map.empty 11 nodeMax = Inr (Some m) \<and> fresh_ok m"
  by (auto simp add: eval_defs Let_def fresh_ok_def)

lemma fresh_12:
  "16 \<le> nodeMax \<Longrightarrow> \<exists>m. NewBufMgr Map.empty 12 nodeMax = Inr (Some m) \<and> fresh_ok m"
  by (auto simp add: eval_defs Let_def fresh_ok_def)

lemma fresh_13:
  "16 \<le> nodeMax \<Longrightarrow> \<exists>m. NewBufMgr Map.empty 13 nodeMax = Inr (Some m) \<and> fresh_ok m"
  by (auto simp add: eval_defs Let_def fresh_ok_def)

lemma fresh_14:
  "16 \<le> nodeMax \<Longrightarrow> \<exists>m. NewBufMgr Map.empty 14 nodeMax = Inr (Some m) \<and> fresh_ok m"
  by (auto simp add: eval_defs Let_def fresh_ok_def)

lemma fresh_15:
  "16 \<le> nodeMax \<Longrightarrow> \<exists>m. NewBufMgr Map.empty 15 nodeMax = Inr (Some m) \<and> fresh_ok m"
  by (auto simp add: eval_defs Let_def fresh_ok_def)

text \<open>
  Claim C8, as amended.  When \<open>NewBufMgr\<close> creates a file with page bits of at most
  15 and a pool of at least 16 entries, exactly the pages 0, 1 and 2 are written.
  The root (page 1, level 1) and the leaf (page 2, level 0) each carry the stopper
  key \<open>{0xff, 0xff}\<close> alone (\<open>Cnt = 1\<close>, \<open>Act = 1\<close>); the value of the root's stopper is
  the page number 2 of the leaf, the value of the leaf's stopper is empty.  Page 0
  carries no key (\<open>Cnt = 0\<close>, \<open>Act = 0\<close>); its right pointer is \<open>MinLvl + 1 = 3\<close>.
\<close>

theorem NewBufMgr_creates:
  assumes "bits0 \<le> 15" and "16 \<le> nodeMax"
  shows "\<exists>m. NewBufMgr Map.empty bits0 nodeMax = Inr (Some m) \<and> fresh_ok m"
proof -
  consider "bits0 \<le> 9" | "bits0 = 10" | "bits0 = 11" | "bits0 = 12" | "bits0 = 13"
    | "bits0 = 14" | "bits0 = 15"
    using assms(1) by linarith
  then show ?thesis
  proof cases
    case 1
    then show ?thesis using assms(2) by (rule fresh_9)
  next
    case 2
    then show ?thesis using fresh_10 [OF assms(2)] by simp
  next
    case 3
    then show ?thesis using fresh_11 [OF assms(2)] by simp
  next
    case 4
    then show ?thesis using fresh_12 [OF assms(2)] by simp
  next
    case 5
    then show ?thesis using fresh_13 [OF assms(2)] by simp
  next
    case 6
    then show ?thesis using fresh_14 [OF assms(2)] by simp
  next
    case 7
    then show ?thesis using fresh_15 [OF assms(2)] by simp
  qed
qed

theorem NewBufMgr_creates_witness:
  "(12::nat) \<le> 15 \<and> (16::nat) \<le> 20
   \<and> (\<exists>m. NewBufMgr Map.empty 12 20 = Inr (Some m) \<and> fresh_ok m)"
  using NewBufMgr_creates [of 12 20] by simp

text \<open>
  The claim as stated fails on page 0: it is written without any key.
\<close>

theorem NewBufMgr_page_zero_counterexample:
  "map_option Cnt (created_page 9 16 0) = Some 0
   \<and> map_option Act (created_page 9 16 0) = Some 0"
  by (simp add: created_page_def eval_defs Let_def)

section \<open>The newly created tree\<close>

lemma replicate_2: "replicate 2 x = [x, x]"
  by (simp add: numeral_2_eq_2)

lemma byte_476: "(476 :: byte) = 220"
  by simp

lemma byte_482: "(482 :: byte) = 226"
  by simp

lemma NewBufMgr_fresh: "NewBufMgr Map.empty 9 16 = Inr (Some fresh_mgr)"
  by (simp add: eval_defs Let_def fresh_mgr_def fresh_zero_def fresh_root_def fresh_leaf_def
      replicate_2 byte_476 byte_482)

lemmas slot_defs = page_defs Typ_def Dead_def Value_def ValueOffset_def nth_append nth_Cons'

lemma fresh_root_reads:
  "Key fresh_root 1 = Inr [255, 255]" "Typ fresh_root 1 = Inr 0" "Dead fresh_root 1 = Inr False"
  "Value fresh_root 1 = Inr [0, 0, 0, 0, 0, 2]"
  by (simp_all add: fresh_root_def slot_defs)

lemma fresh_leaf_reads:
  "Key fresh_leaf 1 = Inr [255, 255]" "Typ fresh_leaf 1 = Inr 0" "Dead fresh_leaf 1 = Inr False"
  "Value fresh_leaf 1 = Inr []"
  by (simp_all add: fresh_leaf_def slot_defs)

lemma FindSlot_single:
  "Cnt p = 1 \<Longrightarrow> GetID (Right p) = 0 \<Longrightarrow> FindSlot p key = Inr 1"
  by (simp add: FindSlot_def FindSlot_loop.simps sub32_def bindR_def)

lemma fresh_root_hdr:
  "Cnt fresh_root = 1" "Act fresh_root = 1" "Lvl fresh_root = 1" "\<not> Free fresh_root"
  "\<not> Kill fresh_root" "GetID (Right fresh_root) = 0" "MinOff fresh_root = 476"
  "Garbage fresh_root = 0" "length (Data fresh_root) = 486"
  by (simp_all add: fresh_root_def GetID_def)

lemma fresh_leaf_hdr:
  "Cnt fresh_leaf = 1" "Act fresh_leaf = 1" "Lvl fresh_leaf = 0" "\<not> Free fresh_leaf"
  "\<not> Kill fresh_leaf" "GetID (Right fresh_leaf) = 0" "MinOff fresh_leaf = 482"
  "Garbage fresh_leaf = 0" "length (Data fresh_leaf) = 486"
  by (simp_all add: fresh_leaf_def GetID_def)

lemma fresh_mgr_pages:
  "pages fresh_mgr 1 = Some fresh_root" "pages fresh_mgr 2 = Some fresh_leaf"
  "pages fresh_mgr (Suc 0) = Some fresh_root"
  "pageDataSize fresh_mgr = 486"
  by (simp_all add: fresh_mgr_def)

lemma LoadPage_skip_live: "Dead p slot = Inr False \<Longrightarrow> LoadPage_skip p slot = Inr (Some slot)"
  by (subst LoadPage_skip.simps) (simp add: bindR_def)

lemma GetIDFromValue_2: "GetIDFromValue [0, 0, 0, 0, 0, 2] = 2"
  by (simp add: GetIDFromValue_def GetID_def BtId_def)

lemma GetIDFromValue_nil: "GetIDFromValue [] = 0"
  by (simp add: GetIDFromValue_def BtId_def)

lemmas fresh_reads = fresh_root_reads fresh_leaf_reads
  fresh_root_reads [unfolded One_nat_def] fresh_leaf_reads [unfolded One_nat_def]

lemma LoadPage_fresh_leaf:
  "LoadPage (Suc (Suc n)) fresh_mgr key 0 lock = Some (Inr (1, Some 2, fresh_mgr))"
  by (simp add: LoadPage_def PinLatch_def fresh_mgr_pages fresh_root_hdr fresh_leaf_hdr
      fresh_reads FindSlot_single LoadPage_skip_live GetIDFromValue_2
      RootPage_def)

lemma LoadPage_fresh_lvl5:
  "LoadPage (Suc (Suc (Suc n))) fresh_mgr key 5 LockWrite
     = Some (Inr (0, Some 2, fresh_mgr\<lparr>mgr_err := BLTErrStruct\<rparr>))"
  by (simp add: LoadPage_def PinLatch_def fresh_mgr_pages fresh_root_hdr fresh_leaf_hdr
      fresh_reads FindSlot_single LoadPage_skip_live GetIDFromValue_2
      GetIDFromValue_nil RootPage_def)

lemma fuel_4: "(4::nat) = Suc (Suc (Suc (Suc 0)))"
  by simp

text \<open>
  Claim C5 fails on the code.  On the newly created tree, \<open>insertKey\<close> at level 5
  makes \<open>LoadPage\<close> run off the end of the tree: it returns slot 0 and records
  \<open>BLTErrStruct\<close> in the manager.  \<open>insertKey\<close> tests the error field of the tree,
  which is still \<open>BLTErrOk\<close>, and returns \<open>BLTErrOk\<close>: neither \<open>BLTErrOverflow\<close> nor
  the recorded error, and no page has changed.
\<close>

theorem insertKey_load_failure_returns_ok:
  "NewBufMgr Map.empty 9 16 = Inr (Some fresh_mgr)
   \<and> result_err (insertKey 4 (NewBLTree fresh_mgr) [1, 1, 1, 1] 5 (PutID 1) True) = Some BLTErrOk
   \<and> map_option (\<lambda>t. mgr_err (mgr t))
         (result_tree (insertKey 4 (NewBLTree fresh_mgr) [1, 1, 1, 1] 5 (PutID 1) True))
       = Some BLTErrStruct
   \<and> map_option (\<lambda>t. pages (mgr t))
         (result_tree (insertKey 4 (NewBLTree fresh_mgr) [1, 1, 1, 1] 5 (PutID 1) True))
       = Some (pages fresh_mgr)"
proof -
  have "insertKey 4 (NewBLTree fresh_mgr) [1, 1, 1, 1] 5 (PutID 1) True
        = Some (Inr (BLTErrOk, (NewBLTree fresh_mgr)\<lparr>mgr := fresh_mgr\<lparr>mgr_err := BLTErrStruct\<rparr>\<rparr>))"
    by (subst fuel_4) (simp add: insertKey_def LoadPage_fresh_lvl5 bindO_def NewBLTree_def)
  then show ?thesis
    by (simp add: NewBufMgr_fresh result_err_def result_tree_def)
qed

end
